theory Spec2Isabelle
  imports Main
begin

section \<open>JavaScript values, objects and the object memory\<close>

text \<open>
  The middleware of \<^verbatim>\<open>source/redux/middleware/asynchronous.js\<close> handles values of any
  JavaScript type: it tests them for truthiness, asks for their \<^verbatim>\<open>typeof\<close>, reads
  properties of them and copies them into the actions it dispatches.  Primitive values and
  arrays are modelled by value.  Objects and functions are references into an object
  memory, because \<^verbatim>\<open>parse_error\<close> assigns to properties of an object it did not create.
  Numbers are the integer-valued ones; a \<open>string\<close> is the sequence of the UTF-16 code
  units of a JavaScript string.
\<close>

type_synonym addr = nat

datatype jsval =
    Undefined
  | Null
  | Bool bool
  | Num int
  | Str (chars: string)
  | Arr "jsval list"
  | Obj (address: addr)
  | Fun (address: addr)

text \<open>
  The properties of an object, in insertion order.  An action (the argument of
  \<^verbatim>\<open>dispatch\<close>) is given by its properties.
\<close>

type_synonym props = "(string \<times> jsval) list"

text \<open>\<^verbatim>\<open>object[key]\<close>: a property that is absent reads as \<^verbatim>\<open>undefined\<close>.\<close>

definition obj_get :: "props \<Rightarrow> string \<Rightarrow> jsval" where
  "obj_get ps k = (case map_of ps k of None \<Rightarrow> Undefined | Some v \<Rightarrow> v)"

text \<open>
  \<^verbatim>\<open>object[key] = value\<close>, also the effect of a later entry of an object literal on an
  earlier one: an existing property keeps its place, a new one goes last.
\<close>

fun obj_set :: "props \<Rightarrow> string \<Rightarrow> jsval \<Rightarrow> props" where
  "obj_set [] k v = [(k, v)]"
| "obj_set (p # ps) k v = (if fst p = k then (k, v) # ps else p # obj_set ps k v)"

text \<open>\<^verbatim>\<open>delete object[key]\<close>.\<close>

definition obj_delete :: "props \<Rightarrow> string \<Rightarrow> props" where
  "obj_delete ps k = filter (\<lambda>p. fst p \<noteq> k) ps"

text \<open>
  The rest element of an object destructuring pattern,
  \<^verbatim>\<open>let { k1, ..., kn, ...rest } = object\<close>: the properties not named in the pattern.
\<close>

definition obj_rest :: "string list \<Rightarrow> props \<Rightarrow> props" where
  "obj_rest ks ps = filter (\<lambda>p. fst p \<notin> set ks) ps"

text \<open>Truthiness, as \<^verbatim>\<open>!value\<close> and \<^verbatim>\<open>a && b\<close> and \<^verbatim>\<open>if (value)\<close> test it.\<close>

fun truthy :: "jsval \<Rightarrow> bool" where
  "truthy Undefined = False"
| "truthy Null = False"
| "truthy (Bool b) = b"
| "truthy (Num n) = (n \<noteq> 0)"
| "truthy (Str s) = (s \<noteq> [])"
| "truthy (Arr xs) = True"
| "truthy (Obj a) = True"
| "truthy (Fun a) = True"

text \<open>\<^verbatim>\<open>typeof value === 'function'\<close> and \<^verbatim>\<open>typeof value === 'string'\<close>.\<close>

fun typeof_function :: "jsval \<Rightarrow> bool" where
  "typeof_function (Fun a) = True"
| "typeof_function v = False"

fun typeof_string :: "jsval \<Rightarrow> bool" where
  "typeof_string (Str s) = True"
| "typeof_string v = False"

text \<open>
  The object memory: the properties that can be read at each reference, and the next
  unused reference.
\<close>

record heap =
  cells :: "addr \<Rightarrow> props"
  fresh :: addr

text \<open>
  \<^verbatim>\<open>value.key\<close> for a named (non-index) key.  Reading a property of \<^verbatim>\<open>undefined\<close>
  or \<^verbatim>\<open>null\<close> throws a \<^verbatim>\<open>TypeError\<close>, which is \<open>None\<close> here.  Among the
  primitives and arrays only \<^verbatim>\<open>length\<close> of a string or an array has a value.
\<close>

fun member :: "heap \<Rightarrow> jsval \<Rightarrow> string \<Rightarrow> jsval option" where
  "member h Undefined k = None"
| "member h Null k = None"
| "member h (Bool b) k = Some Undefined"
| "member h (Num n) k = Some Undefined"
| "member h (Str s) k = Some (if k = ''length'' then Num (int (length s)) else Undefined)"
| "member h (Arr xs) k = Some (if k = ''length'' then Num (int (length xs)) else Undefined)"
| "member h (Obj a) k = Some (obj_get (cells h a) k)"
| "member h (Fun a) k = Some (obj_get (cells h a) k)"

text \<open>\<^verbatim>\<open>typeof value.key === 'function'\<close>.\<close>

definition typeof_member_function :: "heap \<Rightarrow> jsval \<Rightarrow> string \<Rightarrow> bool" where
  "typeof_member_function h v k =
     (case member h v k of None \<Rightarrow> False | Some f \<Rightarrow> typeof_function f)"

text \<open>\<^verbatim>\<open>object.key = value\<close> on an object or function reference.\<close>

fun set_member :: "heap \<Rightarrow> jsval \<Rightarrow> string \<Rightarrow> jsval \<Rightarrow> heap" where
  "set_member h (Obj a) k v = h\<lparr>cells := (cells h)(a := obj_set (cells h a) k v)\<rparr>"
| "set_member h (Fun a) k v = h\<lparr>cells := (cells h)(a := obj_set (cells h a) k v)\<rparr>"
| "set_member h x k v = h"

text \<open>The object literal \<^verbatim>\<open>{}\<close>: a new object without properties.\<close>

definition new_object :: "heap \<Rightarrow> jsval \<times> heap" where
  "new_object h = (Obj (fresh h), h\<lparr>cells := (cells h)(fresh h := []), fresh := Suc (fresh h)\<rparr>)"


text \<open>
  What iterating a value yields: the elements of an array, the one-character strings of a
  string (of characters of the basic plane, one code unit each); numbers, booleans, plain
  objects and functions are not iterable (\<open>None\<close>, a \<^verbatim>\<open>TypeError\<close>).
\<close>

fun iterate :: "jsval \<Rightarrow> jsval list option" where
  "iterate (Arr xs) = Some xs"
| "iterate (Str s) = Some (map (\<lambda>c. Str [c]) s)"
| "iterate v = None"

text \<open>
  The array pattern \<^verbatim>\<open>const [Request, Success, Failure] = events\<close>: the first three
  values of the iteration, \<^verbatim>\<open>undefined\<close> where it ends earlier.
\<close>

definition element :: "jsval list \<Rightarrow> nat \<Rightarrow> jsval" where
  "element xs i = (if i < length xs then xs ! i else Undefined)"

definition destructure3 :: "jsval \<Rightarrow> (jsval \<times> jsval \<times> jsval) option" where
  "destructure3 v =
     (case iterate v of
        None \<Rightarrow> None
      | Some xs \<Rightarrow> Some (element xs 0, element xs 1, element xs 2))"

text \<open>
  The decimal numeral of a natural number, and \<^verbatim>\<open>Array.prototype.join\<close> with a comma.
\<close>

fun decimal :: "nat \<Rightarrow> string" where
  "decimal n =
     (if n < 10 then [''0123456789'' ! n]
      else decimal (n div 10) @ [''0123456789'' ! (n mod 10)])"

fun join :: "string list \<Rightarrow> string" where
  "join [] = []"
| "join [s] = s"
| "join (s # t # ts) = s @ '','' @ join (t # ts)"

declare decimal.simps [simp del]

section \<open>The helpers \<^verbatim>\<open>exists\<close> and \<^verbatim>\<open>is_object\<close>\<close>

text \<open>
  Modelled from the spec: the helper \<^verbatim>\<open>exists\<close> that \<^verbatim>\<open>parse_error\<close> imports from
  \<^verbatim>\<open>../../helpers\<close>, a file that is not among the sources.  The spec has \<^verbatim>\<open>status\<close> and
  \<^verbatim>\<open>message\<close> defaulted when they are "absent" from the payload: a value exists unless it
  is \<^verbatim>\<open>undefined\<close>, which is what an absent property reads as.
\<close>

definition exists :: "jsval \<Rightarrow> bool" where
  "exists what = (what \<noteq> Undefined)"

text \<open>
  Modelled from the spec: the helper \<^verbatim>\<open>is_object\<close> of the same file.  The spec has the
  normalized error built from the payload when it is present, a "plain mapping": the
  objects are the object references, not arrays, functions or primitive values.
\<close>

fun is_object :: "jsval \<Rightarrow> bool" where
  "is_object (Obj a) = True"
| "is_object v = False"

section \<open>\<^verbatim>\<open>parse_error\<close>\<close>

text \<open>What a \<^verbatim>\<open>throw\<close> carries, here and in the middleware.\<close>

datatype thrown =
    EventsError
  | PromiseError jsval
  | TypeError
  | Raised jsval

text \<open>
  The statement \<^verbatim>\<open>if (!exists(error_data.key)) { error_data.key = error.key }\<close>, which
  \<^verbatim>\<open>parse_error\<close> has for \<^verbatim>\<open>status\<close> and for \<^verbatim>\<open>message\<close>.  \<open>None\<close> is the
  \<^verbatim>\<open>TypeError\<close> of a property read.
\<close>

definition default_member :: "heap \<Rightarrow> jsval \<Rightarrow> jsval \<Rightarrow> string \<Rightarrow> heap option" where
  "default_member h error_data error k =
     (case member h error_data k of
        None \<Rightarrow> None
      | Some present \<Rightarrow>
          if \<not> exists present
          then (case member h error k of
                  None \<Rightarrow> None
                | Some v \<Rightarrow> Some (set_member h error_data k v))
          else Some h)"

text \<open>
  \<^verbatim>\<open>parse_error(error)\<close>: the value returned or the error thrown, and the object memory
  afterwards.
\<close>

definition parse_error :: "heap \<Rightarrow> jsval \<Rightarrow> (thrown + jsval) \<times> heap" where
  "parse_error h error =
     (case member h error ''data'' of
        None \<Rightarrow> (Inl TypeError, h)
      | Some data \<Rightarrow>
          (let (error_data, h1) = (if is_object data then (data, h) else new_object h)
           in case default_member h1 error_data error ''status'' of
                None \<Rightarrow> (Inl TypeError, h1)
              | Some h2 \<Rightarrow>
                  (case default_member h2 error_data error ''message'' of
                     None \<Rightarrow> (Inl TypeError, h2)
                   | Some h3 \<Rightarrow> (Inr error_data, h3))))"

section \<open>The middleware\<close>

definition RESULT_ACTION_PROPERTY :: string where
  "RESULT_ACTION_PROPERTY = ''value''"

definition ERROR_ACTION_PROPERTY :: string where
  "ERROR_ACTION_PROPERTY = ''error''"

text \<open>
  The arguments of \<^verbatim>\<open>asynchronous_middleware\<close>.  \<open>on_error\<close> and \<open>parseError\<close> are
  \<open>None\<close> when the caller passes \<^verbatim>\<open>undefined\<close>; the default of \<open>parseError\<close> is
  \<^verbatim>\<open>parse_error\<close>.  An error normalizer may throw, as \<^verbatim>\<open>parse_error\<close> does.
\<close>

record config =
  http_client :: jsval
  redux_event_naming :: "string \<Rightarrow> jsval"
  server :: bool
  on_error :: "addr option"
  parseError :: "(heap \<Rightarrow> jsval \<Rightarrow> (thrown + jsval) \<times> heap) option"

definition the_parseError :: "config \<Rightarrow> heap \<Rightarrow> jsval \<Rightarrow> (thrown + jsval) \<times> heap" where
  "the_parseError cfg = (case parseError cfg of None \<Rightarrow> parse_error | Some f \<Rightarrow> f)"

text \<open>
  The collaborators the middleware calls.  \<open>operation f http h\<close> is the call
  \<^verbatim>\<open>promise({ http, dispatch, getState })\<close> of the function \<open>Fun f\<close> in the object memory
  \<open>h\<close>: it returns a value or throws, and leaves an object memory.  \<open>next_stage\<close> is
  \<^verbatim>\<open>next\<close>; \<open>location_pathname\<close> is \<^verbatim>\<open>get_history().getCurrentLocation().pathname\<close>
  and \<open>location_url\<close> is \<^verbatim>\<open>location_url(location)\<close> for that location.  The store's
  \<^verbatim>\<open>dispatch\<close>, the \<^verbatim>\<open>cancel\<close> method of a promise and the \<^verbatim>\<open>on_error\<close> callback are
  calls that return; each is recorded as an event, in the order of the calls.  Of the
  second argument of \<^verbatim>\<open>on_error\<close> the event keeps \<^verbatim>\<open>path\<close> and \<^verbatim>\<open>url\<close>; its other
  members are \<^verbatim>\<open>dispatch\<close>, \<^verbatim>\<open>getState\<close>, the flag \<^verbatim>\<open>server\<close> and a function
  \<^verbatim>\<open>redirect\<close> that the middleware does not call.  None of the collaborators dispatches
  to this instance while it is being called: the table changes only where the middleware
  assigns to it.  The last two fields are the texts the language gives where a value
  that is not a string is used as a property name: \<open>number_text\<close> for a number beyond
  the safe integers, which is written in the shortest form that reads back as the same
  number (\<^verbatim>\<open>1e+21\<close>), and \<open>reference_text\<close> for an object or a function, which is what
  its \<^verbatim>\<open>toString\<close> method returns (for a function, its source text).
\<close>

datatype call_result = Returns jsval | Throws jsval

record world =
  operation :: "addr \<Rightarrow> jsval \<Rightarrow> heap \<Rightarrow> call_result \<times> heap"
  next_stage :: "props \<Rightarrow> jsval"
  location_pathname :: jsval
  location_url :: jsval
  number_text :: "int \<Rightarrow> string"
  reference_text :: "addr \<Rightarrow> string"

text \<open>
  The key under which \<^verbatim>\<open>table[value]\<close> finds a property: the string itself for a
  string; the decimal numeral for a safe integer (one below \<open>2\<^sup>5\<^sup>3\<close> in absolute value);
  the keys of the elements joined by commas for an array, with nothing for
  \<^verbatim>\<open>undefined\<close> and \<^verbatim>\<open>null\<close>; for the other numbers, and for objects and functions,
  the text the world gives.
\<close>

fun property_key :: "world \<Rightarrow> jsval \<Rightarrow> string" where
  "property_key w Undefined = ''undefined''"
| "property_key w Null = ''null''"
| "property_key w (Bool b) = (if b then ''true'' else ''false'')"
| "property_key w (Num n) =
     (if abs n < 9007199254740992
      then (if n < 0 then ''-'' @ decimal (nat (- n)) else decimal (nat n))
      else number_text w n)"
| "property_key w (Str s) = s"
| "property_key w (Arr xs) =
     join (map (\<lambda>x. if x = Undefined \<or> x = Null then [] else property_key w x) xs)"
| "property_key w (Obj a) = reference_text w a"
| "property_key w (Fun a) = reference_text w a"

datatype event =
    Dispatch props
  | Operation addr
  | Cancel jsval
  | Report addr jsval jsval jsval
  | Next props

text \<open>
  The state of one middleware instance: the table \<^verbatim>\<open>cancellable_promises\<close>, an object
  whose keys are the pending event names, and the object memory.  The state holds the
  entries of the table, the properties the middleware has stored.
\<close>

record state =
  cancellable_promises :: props
  memory :: heap

text \<open>
  The table is created as \<^verbatim>\<open>{}\<close>, so reading \<^verbatim>\<open>cancellable_promises[Request]\<close> finds
  more than its entries: where the table has no entry under a name, the read finds what
  every object inherits from \<^verbatim>\<open>Object.prototype\<close> under that name.  These are the names
  of the properties of \<^verbatim>\<open>Object.prototype\<close>, as the language defines it; each is a
  function, or for \<^verbatim>\<open>__proto__\<close> the prototype object itself.
\<close>

definition object_prototype_names :: "string list" where
  "object_prototype_names =
     [''constructor'', ''__defineGetter__'', ''__defineSetter__'', ''hasOwnProperty'',
      ''__lookupGetter__'', ''__lookupSetter__'', ''isPrototypeOf'', ''propertyIsEnumerable'',
      ''toString'', ''valueOf'', ''__proto__'', ''toLocaleString'']"

datatype lookup = Absent | Own jsval | Inherited

definition table_get :: "props \<Rightarrow> string \<Rightarrow> lookup" where
  "table_get table key =
     (case map_of table key of
        Some v \<Rightarrow> Own v
      | None \<Rightarrow> if key \<in> set object_prototype_names then Inherited else Absent)"

text \<open>
  The statement
  \<^verbatim>\<open>if (cancellable_promises[Request]) { cancellable_promises[Request].cancel() }\<close>
  in the object memory \<open>m\<close>: the calls of \<^verbatim>\<open>cancel\<close> it makes, or \<open>None\<close> when it throws
  a \<^verbatim>\<open>TypeError\<close> because what it found has no \<^verbatim>\<open>cancel\<close> function.  What is inherited
  from \<^verbatim>\<open>Object.prototype\<close> is truthy and has none.
\<close>

definition cancel_held :: "heap \<Rightarrow> props \<Rightarrow> string \<Rightarrow> event list option" where
  "cancel_held m table key =
     (case table_get table key of
        Absent \<Rightarrow> Some []
      | Own previous \<Rightarrow>
          if truthy previous
          then (if typeof_member_function m previous ''cancel''
                then Some [Cancel previous] else None)
          else Some []
      | Inherited \<Rightarrow> None)"

text \<open>
  The variables the two callbacks of \<^verbatim>\<open>promised.then\<close> close over.
\<close>

record closure =
  c_action :: props
  c_rest :: props
  c_request :: jsval
  c_success :: jsval
  c_failure :: jsval
  c_cancellable :: bool
  c_promised :: jsval

text \<open>
  What a call of the middleware does: it throws, it returns the result of \<^verbatim>\<open>next\<close>, or
  it returns a new promise whose settlement is left to the two callbacks.
\<close>

datatype outcome = Throw thrown | Return jsval | Promise closure

text \<open>
  How the promise returned by the middleware settles when a callback runs: \<open>Unsettled\<close>
  when the callback throws before it reaches \<^verbatim>\<open>resolve\<close> or \<^verbatim>\<open>reject\<close>.
\<close>

datatype settlement = Resolved jsval | Rejected jsval | Unsettled

text \<open>
  The value of \<^verbatim>\<open>events\<close> after the statement
  \<^verbatim>\<open>if (!events && typeof event === 'string') { events = redux_event_naming(event) }\<close>.
\<close>

definition event_names :: "config \<Rightarrow> props \<Rightarrow> jsval" where
  "event_names cfg action =
     (let event = obj_get action ''event'';
          events = obj_get action ''events''
      in if \<not> truthy events \<and> typeof_string event
         then redux_event_naming cfg (chars event) else events)"

text \<open>
  The call \<^verbatim>\<open>asynchronous_middleware(...)({ dispatch, getState })(next)(action)\<close>, up to
  its \<^verbatim>\<open>return\<close> or \<^verbatim>\<open>throw\<close>: the events in the order they happen, the state
  afterwards, and the outcome.
\<close>

definition asynchronous_middleware ::
  "config \<Rightarrow> world \<Rightarrow> state \<Rightarrow> props \<Rightarrow> event list \<times> state \<times> outcome" where
  "asynchronous_middleware cfg w s action =
     (let promise = obj_get action ''promise'';
          cancelPrevious = obj_get action ''cancelPrevious'';
          rest = obj_rest [''promise'', ''event'', ''events'', ''cancelPrevious''] action
      in if \<not> typeof_function promise
         then ([Next action], s, Return (next_stage w action))
         else
          (let events = event_names cfg action
           in if \<not> truthy events \<or> member (memory s) events ''length'' \<noteq> Some (Num 3)
              then ([], s, Throw EventsError)
              else
               (case destructure3 events of
                  None \<Rightarrow> ([], s, Throw TypeError)
                | Some (Request, Success, Failure) \<Rightarrow>
                   (let pending = [Dispatch (obj_set rest ''type'' Request), Operation (address promise)]
                    in case operation w (address promise) (http_client cfg) (memory s) of
                         (Throws e, m) \<Rightarrow> (pending, s\<lparr>memory := m\<rparr>, Throw (Raised e))
                       | (Returns promised, m) \<Rightarrow>
                           if \<not> truthy promised \<or> \<not> typeof_member_function m promised ''then''
                           then (pending, s\<lparr>memory := m\<rparr>, Throw (PromiseError promised))
                           else
                            (let cancellable = (\<not> server cfg \<and> truthy cancelPrevious
                                                \<and> typeof_member_function m promised ''cancel'');
                                 closure = \<lparr>c_action = action, c_rest = rest,
                                            c_request = Request, c_success = Success,
                                            c_failure = Failure, c_cancellable = cancellable,
                                            c_promised = promised\<rparr>
                             in if cancellable
                                then (case cancel_held m (cancellable_promises s)
                                             (property_key w Request) of
                                        None \<Rightarrow> (pending, s\<lparr>memory := m\<rparr>, Throw TypeError)
                                      | Some cancelled \<Rightarrow>
                                          (pending @ cancelled,
                                           \<lparr>cancellable_promises =
                                              obj_set (cancellable_promises s)
                                                (property_key w Request) promised,
                                            memory = m\<rparr>,
                                           Promise closure))
                                else (pending,
                                      \<lparr>cancellable_promises = cancellable_promises s, memory = m\<rparr>,
                                      Promise closure))))))"

text \<open>
  The first callback of \<^verbatim>\<open>promised.then\<close>, run when \<^verbatim>\<open>promised\<close> resolves with
  \<open>result\<close>, in the state the instance has by then.
\<close>

definition resolved ::
  "world \<Rightarrow> closure \<Rightarrow> state \<Rightarrow> jsval \<Rightarrow> event list \<times> state \<times> settlement" where
  "resolved w c s result =
     ([Dispatch (obj_set (obj_set (c_rest c) ''type'' (c_success c)) RESULT_ACTION_PROPERTY result)],
      (if c_cancellable c
       then s\<lparr>cancellable_promises :=
                 obj_delete (cancellable_promises s) (property_key w (c_request c))\<rparr>
       else s),
      Resolved result)"

text \<open>
  The second callback, run when \<^verbatim>\<open>promised\<close> rejects with \<open>error\<close>.  When the error
  normalizer throws, the callback ends there: nothing is dispatched or reported, and
  \<^verbatim>\<open>reject\<close> is not reached.
\<close>

definition rejected ::
  "config \<Rightarrow> world \<Rightarrow> closure \<Rightarrow> state \<Rightarrow> jsval \<Rightarrow> event list \<times> state \<times> settlement" where
  "rejected cfg w c s error =
     (let s1 = (if c_cancellable c
                then s\<lparr>cancellable_promises :=
                          obj_delete (cancellable_promises s) (property_key w (c_request c))\<rparr>
                else s)
      in case the_parseError cfg (memory s1) error of
           (Inl t, m) \<Rightarrow> ([], s1\<lparr>memory := m\<rparr>, Unsettled)
         | (Inr parsed, m) \<Rightarrow>
             (Dispatch (obj_set (obj_set (c_rest c) ''type'' (c_failure c)) ERROR_ACTION_PROPERTY parsed)
              # (if \<not> server cfg \<and> on_error cfg \<noteq> None \<and> \<not> truthy (obj_get (c_action c) ''preloading'')
                 then [Report (the (on_error cfg)) error (location_pathname w) (location_url w)]
                 else []),
              s1\<lparr>memory := m\<rparr>,
              Rejected error))"

section \<open>Reading the events of a run\<close>

text \<open>
  The actions passed to \<^verbatim>\<open>dispatch\<close>, the promises whose \<^verbatim>\<open>cancel\<close> was called, and
  the errors passed to \<^verbatim>\<open>on_error\<close>, each in the order of the calls.
\<close>

fun dispatches :: "event list \<Rightarrow> props list" where
  "dispatches [] = []"
| "dispatches (Dispatch a # es) = a # dispatches es"
| "dispatches (e # es) = dispatches es"

fun cancels :: "event list \<Rightarrow> jsval list" where
  "cancels [] = []"
| "cancels (Cancel p # es) = p # cancels es"
| "cancels (e # es) = cancels es"

fun reports :: "event list \<Rightarrow> jsval list" where
  "reports [] = []"
| "reports (Report f error path url # es) = error # reports es"
| "reports (e # es) = reports es"

text \<open>
  The properties of an action that the middleware keeps for itself; every other property
  is the payload \<^verbatim>\<open>rest\<close>.
\<close>

definition reserved :: "string set" where
  "reserved = {''promise'', ''event'', ''events'', ''cancelPrevious''}"

section \<open>A small instance\<close>

text \<open>
  One instance on the client, with an \<^verbatim>\<open>on_error\<close> callback and the default error
  normalizer.  The object memory holds the HTTP client (0), the \<^verbatim>\<open>promise\<close> functions of
  two actions (1 and 8), the promises they return (2 and 9, with \<^verbatim>\<open>then\<close> and
  \<^verbatim>\<open>cancel\<close>), the \<^verbatim>\<open>on_error\<close> callback (5), an error (6) and the JSON response it
  carries (7), an error without a response (10), and a function that returns
  \<^verbatim>\<open>undefined\<close> (11).
\<close>

definition example_heap :: heap where
  "example_heap =
     \<lparr>cells = (\<lambda>a. if a = 2 then [(''then'', Fun 3), (''cancel'', Fun 4)]
                   else if a = 9 then [(''then'', Fun 3), (''cancel'', Fun 4)]
                   else if a = 6 then [(''message'', Str ''Not Found''), (''data'', Obj 7)]
                   else if a = 7 then [(''status'', Num 404)]
                   else if a = 10 then [(''status'', Num 500), (''message'', Str ''Boom'')]
                   else []),
      fresh = 12\<rparr>"

definition example_config :: config where
  "example_config =
     \<lparr>http_client = Obj 0,
      redux_event_naming =
        (\<lambda>e. Arr [Str (e @ ''_PENDING''), Str (e @ ''_SUCCESS''), Str (e @ ''_FAILURE'')]),
      server = False,
      on_error = Some 5,
      parseError = None\<rparr>"

definition example_world :: world where
  "example_world =
     \<lparr>operation = (\<lambda>f http h. (if f = 1 then Returns (Obj 2)
                                 else if f = 8 then Returns (Obj 9)
                                 else Returns Undefined, h)),
      next_stage = (\<lambda>action. obj_get action ''type''),
      location_pathname = Str ''/users'',
      location_url = Str ''/users?page=2'',
      number_text = (\<lambda>n. ''1e+21''),
      reference_text = (\<lambda>a. ''[object Object]'')\<rparr>"

definition example_state :: state where
  "example_state = \<lparr>cancellable_promises = [], memory = example_heap\<rparr>"

definition example_action :: props where
  "example_action =
     [(''promise'', Fun 1),
      (''events'', Arr [Str ''PENDING'', Str ''SUCCESS'', Str ''FAILURE'']),
      (''cancelPrevious'', Bool True),
      (''id'', Num 7)]"

text \<open>
  The state of the instance after \<^verbatim>\<open>example_action\<close> was dispatched, and the variables
  its callbacks close over.
\<close>

definition example_started :: state where
  "example_started = \<lparr>cancellable_promises = [(''PENDING'', Obj 2)], memory = example_heap\<rparr>"

definition example_closure :: closure where
  "example_closure =
     \<lparr>c_action = example_action,
      c_rest = [(''id'', Num 7)],
      c_request = Str ''PENDING'',
      c_success = Str ''SUCCESS'',
      c_failure = Str ''FAILURE'',
      c_cancellable = True,
      c_promised = Obj 2\<rparr>"

text \<open>
  Further actions: a second one with the same event names, whose function (8) returns
  the promise 9; one whose function (11) returns \<^verbatim>\<open>undefined\<close>; one whose event names
  are numbers; one with neither \<^verbatim>\<open>events\<close> nor \<^verbatim>\<open>event\<close>; and one whose pending
  event name is \<^verbatim>\<open>toString\<close>.  And the instance with an error normalizer of its own,
  which puts the error into a list.
\<close>

definition example_second :: props where
  "example_second =
     [(''promise'', Fun 8),
      (''events'', Arr [Str ''PENDING'', Str ''SUCCESS'', Str ''FAILURE'']),
      (''cancelPrevious'', Bool True),
      (''query'', Str ''ab'')]"

definition example_unpromising :: props where
  "example_unpromising =
     [(''promise'', Fun 11),
      (''events'', Arr [Str ''PENDING'', Str ''SUCCESS'', Str ''FAILURE'']),
      (''id'', Num 7)]"

definition example_numbers :: props where
  "example_numbers = [(''promise'', Fun 1), (''events'', Arr [Num 1, Num 2, Num 3])]"

definition example_unnamed :: props where
  "example_unnamed = [(''promise'', Fun 1), (''id'', Num 7)]"

definition example_inherited :: props where
  "example_inherited =
     [(''promise'', Fun 1),
      (''events'', Arr [Str ''toString'', Str ''SUCCESS'', Str ''FAILURE'']),
      (''cancelPrevious'', Bool True),
      (''id'', Num 7)]"

definition example_injected :: config where
  "example_injected = example_config\<lparr>parseError := Some (\<lambda>h error. (Inr (Arr [error]), h))\<rparr>"

section \<open>Properties of objects and of a call that returns a promise\<close>

lemmas example_defs =
  example_config_def example_world_def example_state_def example_action_def
  example_started_def example_closure_def example_heap_def example_second_def
  example_unpromising_def example_numbers_def example_unnamed_def
  example_inherited_def example_injected_def

lemmas run_defs =
  asynchronous_middleware_def Let_def event_names_def obj_get_def obj_rest_def
  destructure3_def element_def typeof_member_function_def cancel_held_def table_get_def
  object_prototype_names_def

lemma map_of_obj_set: "map_of (obj_set ps k v) = (map_of ps)(k \<mapsto> v)"
  by (induction ps) (auto simp: fun_eq_iff)

lemma map_of_obj_delete: "map_of (obj_delete ps k) = (map_of ps)(k := None)"
  unfolding obj_delete_def by (induction ps) (auto simp: fun_eq_iff)

lemma map_of_obj_rest: "map_of (obj_rest ks ps) = map_of ps |` (- set ks)"
  unfolding obj_rest_def by (induction ps) (auto simp: fun_eq_iff restrict_map_def)

lemma obj_get_obj_set: "obj_get (obj_set ps k v) k' = (if k' = k then v else obj_get ps k')"
  by (simp add: obj_get_def map_of_obj_set)

lemma dispatches_append: "dispatches (xs @ ys) = dispatches xs @ dispatches ys"
  by (induction xs rule: dispatches.induct) simp_all

lemma cancels_append: "cancels (xs @ ys) = cancels xs @ cancels ys"
  by (induction xs rule: cancels.induct) simp_all

lemma cancel_held_Some:
  assumes "cancel_held m table key = Some cancelled"
  shows "cancelled =
           (case map_of table key of
              Some previous \<Rightarrow> if truthy previous then [Cancel previous] else []
            | None \<Rightarrow> [])"
    and "key \<in> set object_prototype_names \<Longrightarrow> map_of table key \<noteq> None"
    and "dispatches cancelled = []"
  using assms
  by (auto simp add: cancel_held_def table_get_def split: option.splits if_splits)

lemma middleware_started:
  assumes "obj_get action ''promise'' = Fun f"
    and "truthy (event_names cfg action)"
    and "member (memory s) (event_names cfg action) ''length'' = Some (Num 3)"
    and "destructure3 (event_names cfg action) = Some (Request, Success, Failure)"
    and "operation w f (http_client cfg) (memory s) = (Returns promised, m)"
    and "truthy promised"
    and "typeof_member_function m promised ''then''"
  shows "asynchronous_middleware cfg w s action =
    (let pending = [Dispatch (obj_set (obj_rest [''promise'', ''event'', ''events'', ''cancelPrevious''] action) ''type'' Request),
                    Operation f];
         cancellable = (\<not> server cfg \<and> truthy (obj_get action ''cancelPrevious'')
                         \<and> typeof_member_function m promised ''cancel'');
         closure = \<lparr>c_action = action,
              c_rest = obj_rest [''promise'', ''event'', ''events'', ''cancelPrevious''] action,
              c_request = Request, c_success = Success, c_failure = Failure,
              c_cancellable = cancellable, c_promised = promised\<rparr>
     in if cancellable
        then (case cancel_held m (cancellable_promises s) (property_key w Request) of
                None \<Rightarrow> (pending, s\<lparr>memory := m\<rparr>, Throw TypeError)
              | Some cancelled \<Rightarrow>
                  (pending @ cancelled,
                   \<lparr>cancellable_promises =
                      obj_set (cancellable_promises s) (property_key w Request) promised,
                    memory = m\<rparr>,
                   Promise closure))
        else (pending, \<lparr>cancellable_promises = cancellable_promises s, memory = m\<rparr>,
              Promise closure))"
  using assms by (simp add: asynchronous_middleware_def Let_def)

lemma middleware_promiseD:
  assumes "asynchronous_middleware cfg w s action = (es, s1, Promise c)"
  shows "\<exists>f m cancelled. obj_get action ''promise'' = Fun f
     \<and> truthy (event_names cfg action)
     \<and> member (memory s) (event_names cfg action) ''length'' = Some (Num 3)
     \<and> destructure3 (event_names cfg action) = Some (c_request c, c_success c, c_failure c)
     \<and> operation w f (http_client cfg) (memory s) = (Returns (c_promised c), m)
     \<and> truthy (c_promised c)
     \<and> typeof_member_function m (c_promised c) ''then''
     \<and> c_cancellable c = (\<not> server cfg \<and> truthy (obj_get action ''cancelPrevious'')
                              \<and> typeof_member_function m (c_promised c) ''cancel'')
     \<and> c_rest c = obj_rest [''promise'', ''event'', ''events'', ''cancelPrevious''] action
     \<and> c_action c = action
     \<and> memory s1 = m
     \<and> es = [Dispatch (obj_set (c_rest c) ''type'' (c_request c)), Operation f] @ cancelled
     \<and> (if c_cancellable c
         then cancel_held m (cancellable_promises s) (property_key w (c_request c)) = Some cancelled
            \<and> cancellable_promises s1 =
                obj_set (cancellable_promises s) (property_key w (c_request c)) (c_promised c)
         else cancelled = [] \<and> cancellable_promises s1 = cancellable_promises s)"
  using assms
  by (cases "obj_get action ''promise''")
     (auto simp: asynchronous_middleware_def Let_def split: if_splits option.splits prod.splits call_result.splits)

lemma event_names_given:
  "obj_get action ''events'' = Arr xs \<Longrightarrow> event_names cfg action = Arr xs"
  by (simp add: event_names_def)

lemma destructure3_triple: "destructure3 (Arr [P, S, F]) = Some (P, S, F)"
  by (simp add: destructure3_def element_def)

lemma rejected_returns:
  assumes "fst (the_parseError cfg (memory s) error) = Inr parsed"
  shows "rejected cfg w c s error =
    (Dispatch (obj_set (obj_set (c_rest c) ''type'' (c_failure c)) ''error'' parsed)
       # (if \<not> server cfg \<and> on_error cfg \<noteq> None \<and> \<not> truthy (obj_get (c_action c) ''preloading'')
          then [Report (the (on_error cfg)) error (location_pathname w) (location_url w)]
          else []),
     (if c_cancellable c
      then s\<lparr>cancellable_promises := obj_delete (cancellable_promises s) (property_key w (c_request c))\<rparr>
      else s)\<lparr>memory := snd (the_parseError cfg (memory s) error)\<rparr>,
     Rejected error)"
  using assms
  by (cases "the_parseError cfg (memory s) error")
     (simp add: rejected_def ERROR_ACTION_PROPERTY_def)

lemma rejected_throws:
  assumes "fst (the_parseError cfg (memory s) error) = Inl t"
  shows "rejected cfg w c s error =
    ([],
     (if c_cancellable c
      then s\<lparr>cancellable_promises := obj_delete (cancellable_promises s) (property_key w (c_request c))\<rparr>
      else s)\<lparr>memory := snd (the_parseError cfg (memory s) error)\<rparr>,
     Unsettled)"
  using assms
  by (cases "the_parseError cfg (memory s) error") (simp add: rejected_def)

lemma rejected_table:
  "cancellable_promises (fst (snd (rejected cfg w c s E))) =
     (if c_cancellable c
      then obj_delete (cancellable_promises s) (property_key w (c_request c))
      else cancellable_promises s)"
proof (cases "fst (the_parseError cfg (memory s) E)")
  case (Inl t)
  then show ?thesis by (simp add: rejected_throws)
next
  case (Inr N)
  then show ?thesis by (simp add: rejected_returns)
qed

lemma resolved_table:
  "cancellable_promises (fst (snd (resolved w c s V))) =
     (if c_cancellable c
      then obj_delete (cancellable_promises s) (property_key w (c_request c))
      else cancellable_promises s)"
  by (simp add: resolved_def)

section \<open>Runs of the small instance\<close>

lemma example_call:
  "asynchronous_middleware example_config example_world example_state example_action
     = ([Dispatch [(''id'', Num 7), (''type'', Str ''PENDING'')], Operation 1],
        example_started, Promise example_closure)"
  by (simp add: run_defs example_defs)

lemma example_second_call:
  "asynchronous_middleware example_config example_world example_started example_second
     = ([Dispatch [(''query'', Str ''ab''), (''type'', Str ''PENDING'')], Operation 8, Cancel (Obj 2)],
        \<lparr>cancellable_promises = [(''PENDING'', Obj 9)], memory = example_heap\<rparr>,
        Promise \<lparr>c_action = example_second, c_rest = [(''query'', Str ''ab'')],
                 c_request = Str ''PENDING'', c_success = Str ''SUCCESS'',
                 c_failure = Str ''FAILURE'', c_cancellable = True, c_promised = Obj 9\<rparr>)"
  by (simp add: run_defs example_defs)

section \<open>Actions without a \<^verbatim>\<open>promise\<close> function\<close>

text \<open>
  Claim C7.  When the \<^verbatim>\<open>promise\<close> property of the dispatched action is not a function,
  the middleware passes the action on: its only call is \<^verbatim>\<open>next(action)\<close> with the action
  as it was given, it returns what \<^verbatim>\<open>next\<close> returns, it dispatches nothing, and the
  table \<^verbatim>\<open>cancellable_promises\<close> and the object memory are as before.
\<close>

theorem passthrough:
  assumes "\<not> typeof_function (obj_get action ''promise'')"
  shows "asynchronous_middleware cfg w s action = ([Next action], s, Return (next_stage w action))"
  using assms by (simp add: asynchronous_middleware_def Let_def)

theorem passthrough_witness:
  "\<not> typeof_function (obj_get [(''type'', Str ''PING'')] ''promise'')
   \<and> asynchronous_middleware example_config example_world example_state [(''type'', Str ''PING'')]
       = ([Next [(''type'', Str ''PING'')]], example_state, Return (Str ''PING''))"
  using passthrough [of "[(''type'', Str ''PING'')]" example_config example_world example_state]
  by (simp add: obj_get_def example_world_def)

section \<open>The check of the event names\<close>

text \<open>
  Claim C6, as the code has it.  For an action with a \<^verbatim>\<open>promise\<close> function, let
  \<^verbatim>\<open>events\<close> be the property of that name or, when it is falsy and \<^verbatim>\<open>event\<close> is a
  string, the result of \<^verbatim>\<open>redux_event_naming\<close>.  When this value is falsy or its
  \<^verbatim>\<open>length\<close> is not 3, the middleware throws its error at once: nothing has been
  dispatched and the state is as before.  This is so in particular when \<^verbatim>\<open>events\<close> is
  falsy and \<^verbatim>\<open>event\<close> is not a string.  A truthy value of length 3 passes the check,
  whatever its elements are.
\<close>

theorem events_validation:
  assumes "typeof_function (obj_get action ''promise'')"
  shows "(\<not> truthy (event_names cfg action)
            \<or> member (memory s) (event_names cfg action) ''length'' \<noteq> Some (Num 3)
          \<longrightarrow> asynchronous_middleware cfg w s action = ([], s, Throw EventsError))
       \<and> (\<not> truthy (obj_get action ''events'') \<and> \<not> typeof_string (obj_get action ''event'')
          \<longrightarrow> asynchronous_middleware cfg w s action = ([], s, Throw EventsError))
       \<and> (truthy (event_names cfg action)
            \<and> member (memory s) (event_names cfg action) ''length'' = Some (Num 3)
          \<longrightarrow> asynchronous_middleware cfg w s action \<noteq> ([], s, Throw EventsError))"
proof -
  have names: "event_names cfg action = obj_get action ''events''"
    if "\<not> truthy (obj_get action ''events'')" "\<not> typeof_string (obj_get action ''event'')"
    using that by (simp add: event_names_def)
  have a: "asynchronous_middleware cfg w s action = ([], s, Throw EventsError)"
    if "\<not> truthy (event_names cfg action)
            \<or> member (memory s) (event_names cfg action) ''length'' \<noteq> Some (Num 3)"
    using assms that by (auto simp add: asynchronous_middleware_def Let_def)
  have b: "asynchronous_middleware cfg w s action = ([], s, Throw EventsError)"
    if "\<not> truthy (obj_get action ''events'')" "\<not> typeof_string (obj_get action ''event'')"
    using a names [OF that] that(1) by simp
  have c: "asynchronous_middleware cfg w s action \<noteq> ([], s, Throw EventsError)"
    if "truthy (event_names cfg action)"
       "member (memory s) (event_names cfg action) ''length'' = Some (Num 3)"
    using assms that
    by (auto simp add: asynchronous_middleware_def Let_def
        split: option.splits prod.splits call_result.splits)
  show ?thesis using a b c by blast
qed

theorem events_validation_witness:
  "typeof_function (obj_get example_unnamed ''promise'')
   \<and> \<not> truthy (obj_get example_unnamed ''events'')
   \<and> \<not> typeof_string (obj_get example_unnamed ''event'')
   \<and> asynchronous_middleware example_config example_world example_state example_unnamed
       = ([], example_state, Throw EventsError)"
proof -
  have h1: "typeof_function (obj_get example_unnamed ''promise'')"
    by (simp add: example_unnamed_def obj_get_def)
  have h2: "\<not> truthy (obj_get example_unnamed ''events'') \<and> \<not> typeof_string (obj_get example_unnamed ''event'')"
    by (simp add: example_unnamed_def obj_get_def)
  show ?thesis
    using h1 h2 events_validation [OF h1, of example_config example_state example_world] by simp
qed

text \<open>
  The claim as it was stated demands three strings.  The check looks at the length only:
  for \<^verbatim>\<open>events = [1, 2, 3]\<close> the middleware does not throw, dispatches a pending action
  of \<^verbatim>\<open>type\<close> 1 and returns a promise.
\<close>

theorem events_validation_counterexample:
  "typeof_function (obj_get example_numbers ''promise'')
   \<and> event_names example_config example_numbers = Arr [Num 1, Num 2, Num 3]
   \<and> asynchronous_middleware example_config example_world example_state example_numbers
       = ([Dispatch [(''type'', Num 1)], Operation 1],
          example_state,
          Promise \<lparr>c_action = example_numbers, c_rest = [],
                   c_request = Num 1, c_success = Num 2, c_failure = Num 3,
                   c_cancellable = False, c_promised = Obj 2\<rparr>)"
  by (simp add: run_defs example_defs)

section \<open>The sequence of notifications\<close>

text \<open>
  Claim C3, as the code has it.  Let the call for an action with a \<^verbatim>\<open>promise\<close> function
  return a promise.  Then the pending action, the payload of the action with the pending
  event name as its \<^verbatim>\<open>type\<close>, is the first event of the call, dispatched within it and
  before the operation is started, and nothing else is dispatched by the call.  When the
  operation resolves with \<open>V\<close>, in whatever state the instance is by then, the callback
  dispatches one action, the success action with value \<open>V\<close>.  When it rejects with \<open>E\<close>
  and the error normalizer returns \<open>N\<close> for it, the callback dispatches one action, the
  failure action with error \<open>N\<close>.
\<close>

theorem notification_sequence:
  assumes "asynchronous_middleware cfg w s action = (es, s1, Promise c)"
  shows "\<exists>pending cs success.
      es = Dispatch pending # Operation (address (obj_get action ''promise'')) # cs
    \<and> dispatches cs = []
    \<and> map_of pending = (map_of action |` (- reserved))(''type'' \<mapsto> c_request c)
    \<and> dispatches (fst (resolved w c s2 V)) = [success]
    \<and> map_of success =
        (map_of action |` (- reserved))(''type'' \<mapsto> c_success c, ''value'' \<mapsto> V)
    \<and> (\<forall>N. fst (the_parseError cfg (memory s2) E) = Inr N \<longrightarrow>
          (\<exists>failure. dispatches (fst (rejected cfg w c s2 E)) = [failure]
             \<and> map_of failure =
                 (map_of action |` (- reserved))(''type'' \<mapsto> c_failure c, ''error'' \<mapsto> N)))"
proof -
  obtain f m cancelled where d:
    "obj_get action ''promise'' = Fun f"
    "c_rest c = obj_rest [''promise'', ''event'', ''events'', ''cancelPrevious''] action"
    "es = [Dispatch (obj_set (c_rest c) ''type'' (c_request c)), Operation f] @ cancelled"
    "if c_cancellable c
     then cancel_held m (cancellable_promises s) (property_key w (c_request c)) = Some cancelled
        \<and> cancellable_promises s1 =
            obj_set (cancellable_promises s) (property_key w (c_request c)) (c_promised c)
     else cancelled = [] \<and> cancellable_promises s1 = cancellable_promises s"
    using middleware_promiseD [OF assms] by blast
  have cs: "dispatches cancelled = []"
    using d(4) by (auto dest: cancel_held_Some(3) split: if_splits)
  have set: "set [''promise'', ''event'', ''events'', ''cancelPrevious''] = reserved"
    by (simp add: reserved_def)
  have rest: "map_of (c_rest c) = map_of action |` (- reserved)"
    unfolding d(2) map_of_obj_rest set ..
  have es: "es = Dispatch (obj_set (c_rest c) ''type'' (c_request c))
                 # Operation (address (obj_get action ''promise'')) # cancelled"
    using d(1,3) by simp
  have pending: "map_of (obj_set (c_rest c) ''type'' (c_request c))
                   = (map_of action |` (- reserved))(''type'' \<mapsto> c_request c)"
    by (simp add: map_of_obj_set rest)
  have res: "dispatches (fst (resolved w c s2 V))
               = [obj_set (obj_set (c_rest c) ''type'' (c_success c)) ''value'' V]"
    by (simp add: resolved_def RESULT_ACTION_PROPERTY_def)
  have success: "map_of (obj_set (obj_set (c_rest c) ''type'' (c_success c)) ''value'' V)
                   = (map_of action |` (- reserved))(''type'' \<mapsto> c_success c, ''value'' \<mapsto> V)"
    by (simp add: map_of_obj_set rest)
  have rej: "\<forall>N. fst (the_parseError cfg (memory s2) E) = Inr N \<longrightarrow>
          (\<exists>failure. dispatches (fst (rejected cfg w c s2 E)) = [failure]
             \<and> map_of failure =
                 (map_of action |` (- reserved))(''type'' \<mapsto> c_failure c, ''error'' \<mapsto> N))"
    by (simp add: rejected_returns map_of_obj_set rest)
  show ?thesis
    using es cs pending res success rej by blast
qed

theorem notification_sequence_witness:
  "asynchronous_middleware example_injected example_world example_state example_action
     = ([Dispatch [(''id'', Num 7), (''type'', Str ''PENDING'')], Operation 1],
        example_started, Promise example_closure)
   \<and> fst (the_parseError example_injected (memory example_started) (Obj 6)) = Inr (Arr [Obj 6])
   \<and> (\<exists>pending cs success failure.
        [Dispatch [(''id'', Num 7), (''type'', Str ''PENDING'')], Operation 1]
          = Dispatch pending # Operation (address (obj_get example_action ''promise'')) # cs
      \<and> dispatches cs = []
      \<and> map_of pending = (map_of example_action |` (- reserved))(''type'' \<mapsto> Str ''PENDING'')
      \<and> dispatches (fst (resolved example_world example_closure example_started (Num 42)))
          = [success]
      \<and> map_of success = (map_of example_action |` (- reserved))
                            (''type'' \<mapsto> Str ''SUCCESS'', ''value'' \<mapsto> Num 42)
      \<and> dispatches (fst (rejected example_injected example_world example_closure
                            example_started (Obj 6))) = [failure]
      \<and> map_of failure = (map_of example_action |` (- reserved))
                            (''type'' \<mapsto> Str ''FAILURE'', ''error'' \<mapsto> Arr [Obj 6]))"
proof -
  have h1: "asynchronous_middleware example_injected example_world example_state example_action
     = ([Dispatch [(''id'', Num 7), (''type'', Str ''PENDING'')], Operation 1],
        example_started, Promise example_closure)"
    by (simp add: run_defs example_defs)
  have h2: "fst (the_parseError example_injected (memory example_started) (Obj 6)) = Inr (Arr [Obj 6])"
    by (simp add: the_parseError_def example_injected_def example_config_def)
  have c: "c_request example_closure = Str ''PENDING''" "c_success example_closure = Str ''SUCCESS''"
    "c_failure example_closure = Str ''FAILURE''"
    by (simp_all add: example_closure_def)
  show ?thesis
    using h1 h2 notification_sequence [OF h1, of example_started "Num 42" "Obj 6"]
    unfolding c by blast
qed

text \<open>
  The claim as it was stated, for every action with a \<^verbatim>\<open>promise\<close> function, fails: the
  pending action is dispatched before the operation is started and before its result is
  checked.  For an operation that returns \<^verbatim>\<open>undefined\<close> the middleware has dispatched the
  pending action when it throws, and no callback is left that could dispatch a success or
  failure action.
\<close>

theorem notification_sequence_counterexample:
  "typeof_function (obj_get example_unpromising ''promise'')
   \<and> asynchronous_middleware example_config example_world example_state example_unpromising
       = ([Dispatch [(''id'', Num 7), (''type'', Str ''PENDING'')], Operation 11],
          example_state, Throw (PromiseError Undefined))"
  by (simp add: run_defs example_defs)

section \<open>Cancelling the previous operation\<close>

text \<open>
  Claim C4, as the code has it.  Two actions are dispatched one after the other, the
  second in the state the first call left.  Both calls return a promise and find their
  operation cancellable (not on the server, \<^verbatim>\<open>cancelPrevious\<close> truthy, a \<^verbatim>\<open>cancel\<close>
  function on the promise), and both have the same pending event name.  Then the events of
  the second call are its pending action, the start of its own operation, and the call of
  \<^verbatim>\<open>cancel\<close> on the promise of the first, in this order; and over both calls \<^verbatim>\<open>cancel\<close>
  is called on that promise once, provided the table did not hold this very promise
  before the first call.  Names that are strings are the same name when they have the same
  entry in the table.
\<close>

theorem cancel_previous:
  assumes "asynchronous_middleware cfg w s0 a1 = (es1, s1, Promise c1)"
    and "c_cancellable c1"
    and "asynchronous_middleware cfg w s1 a2 = (es2, s2, Promise c2)"
    and "c_cancellable c2"
    and "property_key w (c_request c2) = property_key w (c_request c1)"
    and "map_of (cancellable_promises s0) (property_key w (c_request c1)) \<noteq> Some (c_promised c1)"
  shows "es2 = [Dispatch (obj_set (c_rest c2) ''type'' (c_request c2)),
                Operation (address (obj_get a2 ''promise'')),
                Cancel (c_promised c1)]
       \<and> count_list (cancels (es1 @ es2)) (c_promised c1) = 1
       \<and> (\<forall>n1 n2. c_request c1 = Str n1 \<and> c_request c2 = Str n2 \<longrightarrow> n1 = n2)"
proof -
  obtain f1 m1 cancelled1 where d1:
    "truthy (c_promised c1)"
    "es1 = [Dispatch (obj_set (c_rest c1) ''type'' (c_request c1)), Operation f1] @ cancelled1"
    "cancel_held m1 (cancellable_promises s0) (property_key w (c_request c1)) = Some cancelled1"
    "cancellable_promises s1 =
       obj_set (cancellable_promises s0) (property_key w (c_request c1)) (c_promised c1)"
    using middleware_promiseD [OF assms(1)] assms(2) by auto
  obtain f2 m2 cancelled2 where d2:
    "obj_get a2 ''promise'' = Fun f2"
    "es2 = [Dispatch (obj_set (c_rest c2) ''type'' (c_request c2)), Operation f2] @ cancelled2"
    "cancel_held m2 (cancellable_promises s1) (property_key w (c_request c2)) = Some cancelled2"
    using middleware_promiseD [OF assms(3)] assms(4) by auto
  have held: "map_of (cancellable_promises s1) (property_key w (c_request c2)) = Some (c_promised c1)"
    unfolding d1(4) assms(5) by (simp add: map_of_obj_set)
  have c2: "cancelled2 = [Cancel (c_promised c1)]"
    using cancel_held_Some(1) [OF d2(3)] held d1(1) by simp
  have c1: "count_list (cancels cancelled1) (c_promised c1) = 0"
    using cancel_held_Some(1) [OF d1(3)] assms(6) by (auto split: option.splits)
  have e2: "es2 = [Dispatch (obj_set (c_rest c2) ''type'' (c_request c2)),
                Operation (address (obj_get a2 ''promise'')),
                Cancel (c_promised c1)]"
    using d2(1,2) c2 by simp
  have cnt: "count_list (cancels (es1 @ es2)) (c_promised c1) = 1"
    using c1 unfolding e2 d1(2) by (simp add: cancels_append)
  have names: "\<forall>n1 n2. c_request c1 = Str n1 \<and> c_request c2 = Str n2 \<longrightarrow> n1 = n2"
    using assms(5) by auto
  show ?thesis using e2 cnt names by blast
qed

theorem cancel_previous_witness:
  "asynchronous_middleware example_config example_world example_state example_action
     = ([Dispatch [(''id'', Num 7), (''type'', Str ''PENDING'')], Operation 1],
        example_started, Promise example_closure)
   \<and> c_cancellable example_closure
   \<and> asynchronous_middleware example_config example_world example_started example_second
     = ([Dispatch [(''query'', Str ''ab''), (''type'', Str ''PENDING'')], Operation 8, Cancel (Obj 2)],
        \<lparr>cancellable_promises = [(''PENDING'', Obj 9)], memory = example_heap\<rparr>,
        Promise \<lparr>c_action = example_second, c_rest = [(''query'', Str ''ab'')],
                 c_request = Str ''PENDING'', c_success = Str ''SUCCESS'',
                 c_failure = Str ''FAILURE'', c_cancellable = True, c_promised = Obj 9\<rparr>)
   \<and> map_of (cancellable_promises example_state)
        (property_key example_world (c_request example_closure))
       \<noteq> Some (c_promised example_closure)
   \<and> count_list
        (cancels ([Dispatch [(''id'', Num 7), (''type'', Str ''PENDING'')], Operation 1]
           @ [Dispatch [(''query'', Str ''ab''), (''type'', Str ''PENDING'')], Operation 8,
              Cancel (Obj 2)]))
        (c_promised example_closure) = 1"
proof -
  have h1: "asynchronous_middleware example_config example_world example_state example_action
     = ([Dispatch [(''id'', Num 7), (''type'', Str ''PENDING'')], Operation 1],
        example_started, Promise example_closure)"
    by (simp add: run_defs example_defs)
  have h2: "c_cancellable example_closure"
    by (simp add: example_closure_def)
  have h3: "asynchronous_middleware example_config example_world example_started example_second
     = ([Dispatch [(''query'', Str ''ab''), (''type'', Str ''PENDING'')], Operation 8, Cancel (Obj 2)],
        \<lparr>cancellable_promises = [(''PENDING'', Obj 9)], memory = example_heap\<rparr>,
        Promise \<lparr>c_action = example_second, c_rest = [(''query'', Str ''ab'')],
                 c_request = Str ''PENDING'', c_success = Str ''SUCCESS'',
                 c_failure = Str ''FAILURE'', c_cancellable = True, c_promised = Obj 9\<rparr>)"
    by (simp add: run_defs example_defs)
  have h4: "c_cancellable \<lparr>c_action = example_second, c_rest = [(''query'', Str ''ab'')],
                 c_request = Str ''PENDING'', c_success = Str ''SUCCESS'',
                 c_failure = Str ''FAILURE'', c_cancellable = True, c_promised = Obj 9\<rparr>"
    by simp
  have h5: "property_key example_world
              (c_request \<lparr>c_action = example_second, c_rest = [(''query'', Str ''ab'')],
                 c_request = Str ''PENDING'', c_success = Str ''SUCCESS'',
                 c_failure = Str ''FAILURE'', c_cancellable = True, c_promised = Obj 9\<rparr>)
          = property_key example_world (c_request example_closure)"
    by (simp add: example_closure_def)
  have h6: "map_of (cancellable_promises example_state)
              (property_key example_world (c_request example_closure))
       \<noteq> Some (c_promised example_closure)"
    by (simp add: example_state_def example_closure_def)
  show ?thesis
    using h1 h2 h3 h6 cancel_previous [OF h1 h2 h3 h4 h5 h6] by simp
qed

text \<open>
  The claim as it was stated has the first operation cancelled before the second begins.
  The middleware calls the \<^verbatim>\<open>promise\<close> function of the second action first, because it
  needs the promise to see whether it has a \<^verbatim>\<open>cancel\<close> function: in the second call the
  operation 8 is started before \<^verbatim>\<open>cancel\<close> is called on the promise 2 of the first.
\<close>

theorem cancel_previous_counterexample:
  "asynchronous_middleware example_config example_world example_state example_action
     = ([Dispatch [(''id'', Num 7), (''type'', Str ''PENDING'')], Operation 1],
        example_started, Promise example_closure)
   \<and> c_cancellable example_closure
   \<and> c_promised example_closure = Obj 2
   \<and> fst (asynchronous_middleware example_config example_world example_started example_second)
       = [Dispatch [(''query'', Str ''ab''), (''type'', Str ''PENDING'')], Operation 8, Cancel (Obj 2)]"
  by (simp add: example_call example_second_call) (simp add: example_closure_def)

section \<open>A pending event name that every object inherits\<close>

text \<open>
  Where the operation is cancellable and the table has no entry under the pending event
  name, the middleware still finds something under a name such as \<^verbatim>\<open>toString\<close>: what the
  table inherits from \<^verbatim>\<open>Object.prototype\<close>.  It takes it for a previous operation, calls
  its \<^verbatim>\<open>cancel\<close>, which is not a function, and throws.  Everywhere else a call whose
  operation returns a promise returns a promise itself, and an operation that resolves is
  followed by the two notifications in order.
\<close>

lemma middleware_returns:
  assumes "obj_get action ''promise'' = Fun f"
    and "obj_get action ''events'' = Arr [P, S, F]"
    and "operation w f (http_client cfg) (memory s) = (Returns promised, m)"
    and "truthy promised"
    and "typeof_member_function m promised ''then''"
    and "server cfg \<or> \<not> truthy (obj_get action ''cancelPrevious'')
         \<or> \<not> typeof_member_function m promised ''cancel''
         \<or> cancel_held m (cancellable_promises s) (property_key w P) \<noteq> None"
  shows "\<exists>es1 s1 c. asynchronous_middleware cfg w s action = (es1, s1, Promise c)
     \<and> dispatches es1 = [obj_set (obj_rest [''promise'', ''event'', ''events'', ''cancelPrevious''] action) ''type'' P]
     \<and> c_rest c = obj_rest [''promise'', ''event'', ''events'', ''cancelPrevious''] action
     \<and> c_success c = S \<and> c_failure c = F"
proof -
  have names: "event_names cfg action = Arr [P, S, F]"
    using assms(2) by (rule event_names_given)
  note started = middleware_started [OF assms(1) _ _ _ assms(3,4,5),
      where Request = P and Success = S and Failure = F, unfolded names, simplified destructure3_triple]
  show ?thesis
  proof (cases "\<not> server cfg \<and> truthy (obj_get action ''cancelPrevious'')
         \<and> typeof_member_function m promised ''cancel''")
    case True
    then obtain cancelled where
      c: "cancel_held m (cancellable_promises s) (property_key w P) = Some cancelled"
      using assms(6) by auto
    have "dispatches cancelled = []"
      using c by (rule cancel_held_Some(3))
    then show ?thesis
      using started True c by (simp add: Let_def dispatches_append)
  next
    case False
    then show ?thesis
      using started by (auto simp add: Let_def)
  qed
qed

lemma resolved_intent:
  assumes "obj_get action ''promise'' = Fun f"
    and "obj_get action ''events'' = Arr [P, S, F]"
    and "operation w f (http_client cfg) (memory s) = (Returns promised, m)"
    and "truthy promised"
    and "typeof_member_function m promised ''then''"
    and "server cfg \<or> \<not> truthy (obj_get action ''cancelPrevious'')
         \<or> \<not> typeof_member_function m promised ''cancel''
         \<or> cancel_held m (cancellable_promises s) (property_key w P) \<noteq> None"
  shows "\<exists>es1 s1 c.
      asynchronous_middleware cfg w s action = (es1, s1, Promise c)
    \<and> (\<forall>s2. \<exists>es2 s3 n1 n2.
          resolved w c s2 V = (es2, s3, Resolved V)
        \<and> dispatches (es1 @ es2) = [n1, n2]
        \<and> map_of n1 = (map_of action |` (- reserved))(''type'' \<mapsto> P)
        \<and> map_of n2 = (map_of action |` (- reserved))(''type'' \<mapsto> S, ''value'' \<mapsto> V))"
proof -
  obtain es1 s1 c where c: "asynchronous_middleware cfg w s action = (es1, s1, Promise c)"
    "dispatches es1 = [obj_set (obj_rest [''promise'', ''event'', ''events'', ''cancelPrevious''] action) ''type'' P]"
    "c_rest c = obj_rest [''promise'', ''event'', ''events'', ''cancelPrevious''] action"
    "c_success c = S"
    using middleware_returns [OF assms] by blast
  have set: "set [''promise'', ''event'', ''events'', ''cancelPrevious''] = reserved"
    by (simp add: reserved_def)
  show ?thesis
    using c
    by (simp add: resolved_def RESULT_ACTION_PROPERTY_def dispatches_append
        map_of_obj_set map_of_obj_rest set del: set_simps)
qed

text \<open>
  Claim C1 has every action with a \<^verbatim>\<open>promise\<close> function, \<^verbatim>\<open>events = [P, S, F]\<close> and an
  operation that resolves dispatch two notifications, the pending one and the success
  one, and has its promise resolve.  The code does not do so for the pending event name
  \<^verbatim>\<open>toString\<close> and a cancellable operation: on the client, from the empty table, the
  action has a \<^verbatim>\<open>promise\<close> function and three event names, its operation returns a
  promise with \<^verbatim>\<open>then\<close>, and the call dispatches the pending action, starts the
  operation and throws a \<^verbatim>\<open>TypeError\<close>.  No promise is returned and no callback is left
  to dispatch the success action.
\<close>

theorem resolved_intent_inherited_name:
  "obj_get example_inherited ''promise'' = Fun 1
   \<and> obj_get example_inherited ''events'' = Arr [Str ''toString'', Str ''SUCCESS'', Str ''FAILURE'']
   \<and> operation example_world 1 (http_client example_config) (memory example_state)
       = (Returns (Obj 2), example_heap)
   \<and> truthy (Obj 2)
   \<and> typeof_member_function example_heap (Obj 2) ''then''
   \<and> asynchronous_middleware example_config example_world example_state example_inherited
       = ([Dispatch [(''id'', Num 7), (''type'', Str ''toString'')], Operation 1],
          example_state, Throw TypeError)"
  by (simp add: run_defs example_defs)

theorem resolved_intent_inherited_name_witness:
  "dispatches (fst (asynchronous_middleware example_config example_world example_state
                      example_inherited))
     = [[(''id'', Num 7), (''type'', Str ''toString'')]]"
  using resolved_intent_inherited_name by simp

text \<open>
  The entries of the table: what a call and the two callbacks do to them, by the outcome
  of the call.
\<close>

lemma table_lifecycle:
  assumes "asynchronous_middleware cfg w s action = (es, s1, out)"
  shows "case out of
      Promise c \<Rightarrow>
        (if c_cancellable c
         then cancels es =
                (case map_of (cancellable_promises s) (property_key w (c_request c)) of
                   Some previous \<Rightarrow> if truthy previous then [previous] else []
                 | None \<Rightarrow> [])
            \<and> map_of (cancellable_promises s1) =
                (map_of (cancellable_promises s))(property_key w (c_request c) \<mapsto> c_promised c)
            \<and> map_of (cancellable_promises (fst (snd (resolved w c s2 V)))) =
                (map_of (cancellable_promises s2))(property_key w (c_request c) := None)
            \<and> map_of (cancellable_promises (fst (snd (rejected cfg w c s2 E)))) =
                (map_of (cancellable_promises s2))(property_key w (c_request c) := None)
         else cancels es = []
            \<and> cancellable_promises s1 = cancellable_promises s
            \<and> cancellable_promises (fst (snd (resolved w c s2 V))) = cancellable_promises s2
            \<and> cancellable_promises (fst (snd (rejected cfg w c s2 E))) = cancellable_promises s2)
    | Throw t \<Rightarrow> cancels es = [] \<and> cancellable_promises s1 = cancellable_promises s
    | Return v \<Rightarrow> cancels es = [] \<and> cancellable_promises s1 = cancellable_promises s"
proof (cases out)
  case (Promise c)
  have call: "asynchronous_middleware cfg w s action = (es, s1, Promise c)"
    using assms Promise by simp
  obtain f m cancelled where d:
    "es = [Dispatch (obj_set (c_rest c) ''type'' (c_request c)), Operation f] @ cancelled"
    "if c_cancellable c
     then cancel_held m (cancellable_promises s) (property_key w (c_request c)) = Some cancelled
        \<and> cancellable_promises s1 =
            obj_set (cancellable_promises s) (property_key w (c_request c)) (c_promised c)
     else cancelled = [] \<and> cancellable_promises s1 = cancellable_promises s"
    using middleware_promiseD [OF call] by blast
  show ?thesis
  proof (cases "c_cancellable c")
    case True
    then have h: "cancel_held m (cancellable_promises s) (property_key w (c_request c)) = Some cancelled"
      "cancellable_promises s1 =
            obj_set (cancellable_promises s) (property_key w (c_request c)) (c_promised c)"
      using d(2) by simp_all
    have "cancels es =
                (case map_of (cancellable_promises s) (property_key w (c_request c)) of
                   Some previous \<Rightarrow> if truthy previous then [previous] else []
                 | None \<Rightarrow> [])"
      unfolding d(1) cancel_held_Some(1) [OF h(1)] by (simp split: option.splits)
    then show ?thesis
      using Promise True h(2)
      by (simp add: rejected_table resolved_table map_of_obj_set map_of_obj_delete)
  next
    case False
    then show ?thesis
      using Promise d by (simp add: rejected_table resolved_table)
  qed
next
  case (Throw t)
  then show ?thesis
    using assms
    by (auto simp add: asynchronous_middleware_def Let_def
        split: if_splits option.splits prod.splits call_result.splits)
next
  case (Return v)
  then show ?thesis
    using assms
    by (auto simp add: asynchronous_middleware_def Let_def
        split: if_splits option.splits prod.splits call_result.splits)
qed

text \<open>
  Claim C8 has every cancellable operation get an entry in the table under its pending
  event name when it starts.  The code creates none for the pending event name
  \<^verbatim>\<open>toString\<close>: on the client, with \<^verbatim>\<open>cancelPrevious\<close> and a \<^verbatim>\<open>cancel\<close> function on the
  promise, and from the empty table, the read of the table finds what is inherited, the
  call throws a \<^verbatim>\<open>TypeError\<close>, and the table is still empty.
\<close>

theorem table_entry_inherited_name:
  "\<not> server example_config
   \<and> truthy (obj_get example_inherited ''cancelPrevious'')
   \<and> typeof_member_function example_heap (Obj 2) ''cancel''
   \<and> cancellable_promises example_state = []
   \<and> table_get (cancellable_promises example_state) ''toString'' = Inherited
   \<and> cancellable_promises
        (fst (snd (asynchronous_middleware example_config example_world example_state
                     example_inherited))) = []
   \<and> snd (snd (asynchronous_middleware example_config example_world example_state
                  example_inherited)) = Throw TypeError"
  by (simp add: run_defs example_defs)

theorem table_entry_inherited_name_witness:
  "map_of (cancellable_promises
        (fst (snd (asynchronous_middleware example_config example_world example_state
                     example_inherited)))) ''toString'' = None"
  using table_entry_inherited_name by simp

section \<open>An operation that rejects\<close>

text \<open>
  Where the error normalizer returns, and the call has returned a promise, an operation
  that rejects with \<open>E\<close> is followed by the two notifications in order, pending and
  failure with the normalized error, and the promise returned by the middleware rejects
  with \<open>E\<close> itself.  The rejection is then reported to \<^verbatim>\<open>on_error\<close> exactly when the
  instance runs on the client, a callback was passed and \<^verbatim>\<open>preloading\<close> is falsy; it is
  never reported on the server, without a callback or with \<^verbatim>\<open>preloading\<close>.
\<close>

lemma rejected_intent:
  assumes "obj_get action ''promise'' = Fun f"
    and "obj_get action ''events'' = Arr [P, S, F]"
    and "operation w f (http_client cfg) (memory s) = (Returns promised, m)"
    and "truthy promised"
    and "typeof_member_function m promised ''then''"
    and "server cfg \<or> \<not> truthy (obj_get action ''cancelPrevious'')
         \<or> \<not> typeof_member_function m promised ''cancel''
         \<or> cancel_held m (cancellable_promises s) (property_key w P) \<noteq> None"
    and "fst (the_parseError cfg (memory s2) E) = Inr N"
  shows "\<exists>es1 s1 c es2 s3 n1 n2.
      asynchronous_middleware cfg w s action = (es1, s1, Promise c)
    \<and> rejected cfg w c s2 E = (es2, s3, Rejected E)
    \<and> dispatches (es1 @ es2) = [n1, n2]
    \<and> map_of n1 = (map_of action |` (- reserved))(''type'' \<mapsto> P)
    \<and> map_of n2 = (map_of action |` (- reserved))(''type'' \<mapsto> F, ''error'' \<mapsto> N)"
proof -
  obtain es1 s1 c where c: "asynchronous_middleware cfg w s action = (es1, s1, Promise c)"
    "dispatches es1 = [obj_set (obj_rest [''promise'', ''event'', ''events'', ''cancelPrevious''] action) ''type'' P]"
    "c_rest c = obj_rest [''promise'', ''event'', ''events'', ''cancelPrevious''] action"
    "c_failure c = F"
    using middleware_returns [OF assms(1-6)] by blast
  have set: "set [''promise'', ''event'', ''events'', ''cancelPrevious''] = reserved"
    by (simp add: reserved_def)
  have disp: "dispatches (fst (rejected cfg w c s2 E)) = [obj_set (obj_set (c_rest c) ''type'' (c_failure c)) ''error'' N]"
    by (simp add: rejected_returns [OF assms(7)])
  have sett: "snd (snd (rejected cfg w c s2 E)) = Rejected E"
    by (simp add: rejected_returns [OF assms(7)])
  obtain es2 s3 where r: "rejected cfg w c s2 E = (es2, s3, Rejected E)"
    using sett by (metis prod.collapse)
  show ?thesis
    using c r disp
    by (simp add: dispatches_append map_of_obj_set map_of_obj_rest set del: set_simps)
qed

lemma error_report:
  "(server cfg \<or> on_error cfg = None \<or> truthy (obj_get (c_action c) ''preloading'')
      \<longrightarrow> reports (fst (rejected cfg w c s E)) = [])
   \<and> (fst (the_parseError cfg (memory s) E) = Inr N
      \<longrightarrow> reports (fst (rejected cfg w c s E)) =
          (if \<not> server cfg \<and> on_error cfg \<noteq> None \<and> \<not> truthy (obj_get (c_action c) ''preloading'')
           then [E] else []))"
proof -
  have "reports (fst (rejected cfg w c s E)) = []"
    if "server cfg \<or> on_error cfg = None \<or> truthy (obj_get (c_action c) ''preloading'')"
  proof (cases "fst (the_parseError cfg (memory s) E)")
    case (Inl t)
    then show ?thesis by (simp add: rejected_throws)
  next
    case (Inr parsed)
    then show ?thesis using that by (auto simp add: rejected_returns)
  qed
  moreover have "reports (fst (rejected cfg w c s E)) =
          (if \<not> server cfg \<and> on_error cfg \<noteq> None \<and> \<not> truthy (obj_get (c_action c) ''preloading'')
           then [E] else [])"
    if "fst (the_parseError cfg (memory s) E) = Inr N"
    using that by (simp add: rejected_returns)
  ultimately show ?thesis by blast
qed

text \<open>
  Claim C2 has every rejection followed by the failure action and by the rejection of the
  promise the middleware returned.  The code does neither for an operation that rejects
  with \<^verbatim>\<open>undefined\<close> when \<^verbatim>\<open>parse_error\<close> is the error normalizer: \<^verbatim>\<open>parse_error\<close> reads
  \<^verbatim>\<open>error.data\<close> first and throws a \<^verbatim>\<open>TypeError\<close>, so the callback ends before it
  dispatches anything and before it reaches \<^verbatim>\<open>reject\<close>.  The pending action is the only
  one dispatched, and the promise stays unsettled.
\<close>

theorem rejected_intent_undefined:
  "obj_get example_action ''promise'' = Fun 1
   \<and> obj_get example_action ''events'' = Arr [Str ''PENDING'', Str ''SUCCESS'', Str ''FAILURE'']
   \<and> asynchronous_middleware example_config example_world example_state example_action
       = ([Dispatch [(''id'', Num 7), (''type'', Str ''PENDING'')], Operation 1],
          example_started, Promise example_closure)
   \<and> the_parseError example_config (memory example_started) Undefined
       = (Inl TypeError, example_heap)
   \<and> rejected example_config example_world example_closure example_started Undefined
       = ([], \<lparr>cancellable_promises = [], memory = example_heap\<rparr>, Unsettled)"
  by (simp add: run_defs example_defs rejected_def the_parseError_def parse_error_def obj_delete_def)

theorem rejected_intent_undefined_witness:
  "dispatches (fst (asynchronous_middleware example_config example_world example_state
                      example_action)
               @ fst (rejected example_config example_world example_closure example_started
                        Undefined))
     = [[(''id'', Num 7), (''type'', Str ''PENDING'')]]"
  using rejected_intent_undefined by simp

text \<open>
  Claim C5 has a rejection reported to \<^verbatim>\<open>on_error\<close> whenever the instance runs on the
  client, a callback was passed and \<^verbatim>\<open>preloading\<close> is falsy.  For an operation that
  rejects with \<^verbatim>\<open>undefined\<close> or with \<^verbatim>\<open>null\<close> the code reports nothing under these
  conditions, because \<^verbatim>\<open>parse_error\<close> has thrown before the report is reached; for the
  error object 6 it reports the error.
\<close>

theorem error_report_undefined:
  "\<not> server example_config
   \<and> on_error example_config = Some 5
   \<and> \<not> truthy (obj_get (c_action example_closure) ''preloading'')
   \<and> reports (fst (rejected example_config example_world example_closure example_started
                      Undefined)) = []
   \<and> reports (fst (rejected example_config example_world example_closure example_started
                      Null)) = []
   \<and> reports (fst (rejected example_config example_world example_closure example_started
                      (Obj 6))) = [Obj 6]"
  by (simp add: example_defs obj_get_def rejected_def the_parseError_def parse_error_def
      default_member_def exists_def obj_delete_def)

section \<open>The built-in error normalizer\<close>


lemma default_member_object:
  assumes "member h error k = Some v"
  shows "default_member h (Obj d) error k =
     Some (if exists (obj_get (cells h d) k) then h
           else h\<lparr>cells := (cells h)(d := obj_set (cells h d) k v)\<rparr>)"
  using assms by (simp add: default_member_def)

lemma member_after_set:
  assumes "member h error k' = Some v" and "k' \<noteq> k"
  shows "member (h\<lparr>cells := (cells h)(d := obj_set (cells h d) k x)\<rparr>) error k' = Some v"
  using assms by (cases error) (auto simp add: obj_get_obj_set)

lemma member_defined:
  assumes "member h error k = Some v"
  shows "\<exists>v'. member h' error k' = Some v'"
  using assms by (cases error) auto

lemma parse_error_object:
  assumes "member h error ''data'' = Some (Obj d)"
    and "member h error ''status'' = Some s0"
    and "member h error ''message'' = Some m0"
  shows "parse_error h error =
     (Inr (Obj d),
      h\<lparr>cells := (cells h)(d :=
          (let ps = (if exists (obj_get (cells h d) ''status'') then cells h d
                     else obj_set (cells h d) ''status'' s0)
           in if exists (obj_get ps ''message'') then ps else obj_set ps ''message'' m0))\<rparr>)"
proof -
  let ?h2 = "if exists (obj_get (cells h d) ''status'') then h
           else h\<lparr>cells := (cells h)(d := obj_set (cells h d) ''status'' s0)\<rparr>"
  have d1: "default_member h (Obj d) error ''status'' = Some ?h2"
    using assms(2) by (rule default_member_object)
  have m2: "member ?h2 error ''message'' = Some m0"
    using assms(3) by (simp add: member_after_set)
  have d2: "default_member ?h2 (Obj d) error ''message'' =
     Some (if exists (obj_get (cells ?h2 d) ''message'') then ?h2
           else ?h2\<lparr>cells := (cells ?h2)(d := obj_set (cells ?h2 d) ''message'' m0)\<rparr>)"
    using m2 by (rule default_member_object)
  show ?thesis
    unfolding parse_error_def
    by (simp only: assms(1) option.case is_object.simps if_True Let_def prod.case d1 d2)
       (auto simp add: Let_def)
qed






text \<open>
  Claim C10.  When the \<^verbatim>\<open>data\<close> of the error is an object, \<^verbatim>\<open>parse_error\<close> returns
  that very object, not a copy, and assigns to it: afterwards the object has the
  \<^verbatim>\<open>status\<close> and \<^verbatim>\<open>message\<close> of the error where it had none, no other object has
  changed and none was created, and the error still refers to the object through
  \<^verbatim>\<open>data\<close>.  With \<^verbatim>\<open>parse_error\<close> as the error normalizer, the promise returned by the
  middleware rejects with this error, in the object memory that \<^verbatim>\<open>parse_error\<close> has
  left.
\<close>

theorem parse_error_in_place:
  assumes "member (memory s) error ''data'' = Some (Obj d)"
    and "parseError cfg = None"
  shows "\<exists>s0 m0 h' es s'.
      member (memory s) error ''status'' = Some s0
    \<and> member (memory s) error ''message'' = Some m0
    \<and> parse_error (memory s) error = (Inr (Obj d), h')
    \<and> cells h' d =
        (let ps = (if exists (obj_get (cells (memory s) d) ''status'') then cells (memory s) d
                   else obj_set (cells (memory s) d) ''status'' s0)
         in if exists (obj_get ps ''message'') then ps else obj_set ps ''message'' m0)
    \<and> (\<forall>a. a \<noteq> d \<longrightarrow> cells h' a = cells (memory s) a)
    \<and> fresh h' = fresh (memory s)
    \<and> member h' error ''data'' = Some (Obj d)
    \<and> rejected cfg w c s error = (es, s', Rejected error)
    \<and> memory s' = h'"
proof -
  obtain s0 where s0: "member (memory s) error ''status'' = Some s0"
    using member_defined [OF assms(1)] by blast
  obtain m0 where m0: "member (memory s) error ''message'' = Some m0"
    using member_defined [OF assms(1)] by blast
  define qs where "qs =
        (let ps = (if exists (obj_get (cells (memory s) d) ''status'') then cells (memory s) d
                   else obj_set (cells (memory s) d) ''status'' s0)
         in if exists (obj_get ps ''message'') then ps else obj_set ps ''message'' m0)"
  define h' where "h' = (memory s)\<lparr>cells := (cells (memory s))(d := qs)\<rparr>"
  have pe: "parse_error (memory s) error = (Inr (Obj d), h')"
    using parse_error_object [OF assms(1) s0 m0] by (simp add: h'_def qs_def)
  have c: "cells h' d = qs" by (simp add: h'_def)
  have frame: "\<forall>a. a \<noteq> d \<longrightarrow> cells h' a = cells (memory s) a"
    by (simp add: h'_def)
  have fr: "fresh h' = fresh (memory s)" by (simp add: h'_def)
  have data: "obj_get qs ''data'' = obj_get (cells (memory s) d) ''data''"
    by (simp add: qs_def Let_def obj_get_obj_set)
  have still: "member h' error ''data'' = Some (Obj d)"
    using assms(1) data by (cases error) (auto simp add: h'_def)
  have norm: "fst (the_parseError cfg (memory s) error) = Inr (Obj d)"
    "snd (the_parseError cfg (memory s) error) = h'"
    using pe assms(2) by (simp_all add: the_parseError_def)
  obtain es s' where rej: "rejected cfg w c s error = (es, s', Rejected error)" "memory s' = h'"
    using rejected_returns [OF norm(1), of w c] norm(2) by simp
  have body: "member (memory s) error ''status'' = Some s0
    \<and> member (memory s) error ''message'' = Some m0
    \<and> parse_error (memory s) error = (Inr (Obj d), h')
    \<and> cells h' d = qs
    \<and> (\<forall>a. a \<noteq> d \<longrightarrow> cells h' a = cells (memory s) a)
    \<and> fresh h' = fresh (memory s)
    \<and> member h' error ''data'' = Some (Obj d)
    \<and> rejected cfg w c s error = (es, s', Rejected error)
    \<and> memory s' = h'"
    using s0 m0 pe c frame fr still rej by blast
  show ?thesis
    by (rule exI [of _ s0], rule exI [of _ m0], rule exI [of _ h'], rule exI [of _ es],
        rule exI [of _ s'])
       (rule body [unfolded qs_def])
qed

theorem parse_error_in_place_witness:
  "member (memory example_started) (Obj 6) ''data'' = Some (Obj 7)
   \<and> parseError example_config = None
   \<and> cells (memory example_started) 7 = [(''status'', Num 404)]
   \<and> (\<exists>h' es s'.
        parse_error (memory example_started) (Obj 6) = (Inr (Obj 7), h')
      \<and> cells h' 7 = [(''status'', Num 404), (''message'', Str ''Not Found'')]
      \<and> member h' (Obj 6) ''data'' = Some (Obj 7)
      \<and> rejected example_config example_world example_closure example_started (Obj 6)
          = (es, s', Rejected (Obj 6))
      \<and> memory s' = h')"
proof -
  have h1: "member (memory example_started) (Obj 6) ''data'' = Some (Obj 7)"
    by (simp add: example_started_def example_heap_def obj_get_def)
  have h2: "parseError example_config = None"
    by (simp add: example_config_def)
  have c: "cells (memory example_started) 7 = [(''status'', Num 404)]"
    by (simp add: example_started_def example_heap_def)
  have m: "member (memory example_started) (Obj 6) ''message'' = Some (Str ''Not Found'')"
    by (simp add: example_started_def example_heap_def obj_get_def)
  obtain s0 m0 h' es s' where r:
    "member (memory example_started) (Obj 6) ''message'' = Some m0"
    "parse_error (memory example_started) (Obj 6) = (Inr (Obj 7), h')"
    "cells h' 7 =
        (let ps = (if exists (obj_get (cells (memory example_started) 7) ''status'')
                   then cells (memory example_started) 7
                   else obj_set (cells (memory example_started) 7) ''status'' s0)
         in if exists (obj_get ps ''message'') then ps else obj_set ps ''message'' m0)"
    "member h' (Obj 6) ''data'' = Some (Obj 7)"
    "rejected example_config example_world example_closure example_started (Obj 6)
          = (es, s', Rejected (Obj 6))"
    "memory s' = h'"
    using parse_error_in_place [OF h1 h2, of example_world example_closure]
    by (elim exE conjE)
  have "m0 = Str ''Not Found''" using r(1) m by simp
  then have "cells h' 7 = [(''status'', Num 404), (''message'', Str ''Not Found'')]"
    using r(3) by (simp add: c obj_get_def exists_def)
  then show ?thesis using h1 h2 c r(2,4,5,6) by blast
qed

end
